theory Spec2Isabelle
  imports Main "HOL-Library.Sublist"
begin

section \<open>SmartGov Ex-Gratia chatbot: intent rules, application IDs, status lookup, dialog\<close>

text \<open>
  The development embeds \<^verbatim>\<open>smartgov_bot.py\<close> (class \<^verbatim>\<open>SmartGovBot\<close>). A message is a
  \<open>string\<close> of ASCII characters: the case maps and the character classes below are
  Python's \<^verbatim>\<open>str.lower\<close>, \<^verbatim>\<open>str.upper\<close>, \<^verbatim>\<open>\w\<close>, \<^verbatim>\<open>[a-z0-9]\<close> and \<^verbatim>\<open>[A-Z0-9]\<close> on code points
  below 128. A character from 128 on is left alone by the case maps and belongs to no
  class here, so statements about such characters say nothing about Unicode text.
\<close>

subsection \<open>Characters and case\<close>

definition ord :: "char \<Rightarrow> nat" where
  "ord c = of_char c"

definition is_digit :: "char \<Rightarrow> bool" where
  "is_digit c = (48 \<le> ord c \<and> ord c \<le> 57)"

definition is_upper :: "char \<Rightarrow> bool" where
  "is_upper c = (65 \<le> ord c \<and> ord c \<le> 90)"

definition is_lower :: "char \<Rightarrow> bool" where
  "is_lower c = (97 \<le> ord c \<and> ord c \<le> 122)"

text \<open>The class \<^verbatim>\<open>[a-z0-9]\<close> of the classifier's pattern.\<close>

definition lower_alnum :: "char \<Rightarrow> bool" where
  "lower_alnum c = (is_lower c \<or> is_digit c)"

text \<open>The class \<^verbatim>\<open>[A-Z0-9]\<close> of the handlers' pattern.\<close>

definition upper_alnum :: "char \<Rightarrow> bool" where
  "upper_alnum c = (is_upper c \<or> is_digit c)"

definition is_alnum :: "char \<Rightarrow> bool" where
  "is_alnum c = (is_upper c \<or> is_lower c \<or> is_digit c)"

text \<open>The class \<^verbatim>\<open>\w\<close>: letters, digits and the underscore (code 95).\<close>

definition is_word :: "char \<Rightarrow> bool" where
  "is_word c = (is_alnum c \<or> ord c = 95)"

definition lower_char :: "char \<Rightarrow> char" where
  "lower_char c = (if is_upper c then char_of (ord c + 32) else c)"

definition upper_char :: "char \<Rightarrow> char" where
  "upper_char c = (if is_lower c then char_of (ord c - 32) else c)"

definition lower :: "string \<Rightarrow> string" where
  "lower s = map lower_char s"

definition upper :: "string \<Rightarrow> string" where
  "upper s = map upper_char s"

subsection \<open>Substring tests\<close>

text \<open>\<open>is_in p s\<close> is Python's \<^verbatim>\<open>p in s\<close> on strings: \<open>p\<close> occurs in \<open>s\<close> as a contiguous block.\<close>

fun is_in :: "string \<Rightarrow> string \<Rightarrow> bool" where
  "is_in p [] = (p = [])"
| "is_in p (c # cs) = (prefix p (c # cs) \<or> is_in p cs)"

text \<open>\<^verbatim>\<open>any(phrase in message_lower for phrase in phrases)\<close>.\<close>

definition any_in :: "string list \<Rightarrow> string \<Rightarrow> bool" where
  "any_in phrases message_lower = list_ex (\<lambda>phrase. is_in phrase message_lower) phrases"

subsection \<open>The pattern \<^verbatim>\<open>\b[...]{6,12}\b\<close>\<close>

text \<open>
  Both regular expressions of the source have the shape \<^verbatim>\<open>\b C{6,12} \b\<close> for a character
  class \<open>C\<close>. The matcher below is the backtracking matcher specialised to that shape. A
  position in the text is the character before it (\<open>None\<close> at the start) and the text
  from it on.
\<close>

text \<open>\<^verbatim>\<open>\b\<close>: exactly one side of the position is a word character.\<close>

definition word_boundary :: "char option \<Rightarrow> string \<Rightarrow> bool" where
  "word_boundary prev rest =
     ((case prev of None \<Rightarrow> False | Some p \<Rightarrow> is_word p) \<noteq>
      (case rest of [] \<Rightarrow> False | c # _ \<Rightarrow> is_word c))"

text \<open>
  The greedy repetition has consumed \<open>n\<close> characters of \<open>s\<close>; the closing \<^verbatim>\<open>\b\<close> is tried
  after \<open>n\<close>, then after \<open>n - 1\<close>, down to 6 characters.
\<close>

fun backtrack :: "string \<Rightarrow> nat \<Rightarrow> nat option" where
  "backtrack s n =
     (if n < 6 then None
      else if word_boundary (Some (s ! (n - 1))) (drop n s) then Some n
      else backtrack s (n - 1))"

declare backtrack.simps [simp del]

text \<open>The length of the match that starts at this position, if there is one.\<close>

definition match_here :: "(char \<Rightarrow> bool) \<Rightarrow> char option \<Rightarrow> string \<Rightarrow> nat option" where
  "match_here cls prev s =
     (if word_boundary prev s
      then backtrack s (min 12 (length (takeWhile cls s)))
      else None)"

lemma backtrack_ge: "backtrack s n = Some k \<Longrightarrow> 6 \<le> k \<and> k \<le> n"
proof (induction s n rule: backtrack.induct)
  case (1 s n)
  show ?case
  proof (cases "n < 6")
    case True
    with "1.prems" show ?thesis by (simp add: backtrack.simps)
  next
    case False
    show ?thesis
    proof (cases "word_boundary (Some (s ! (n - 1))) (drop n s)")
      case True
      with False "1.prems" show ?thesis by (simp add: backtrack.simps)
    next
      case nb: False
      with False "1.prems" have "backtrack s (n - 1) = Some k"
        by (simp add: backtrack.simps)
      with "1.IH" False nb have "6 \<le> k \<and> k \<le> n - 1" by simp
      then show ?thesis by arith
    qed
  qed
qed

lemma match_here_ge: "match_here cls prev s = Some k \<Longrightarrow> 6 \<le> k \<and> k \<le> length s"
proof -
  assume a: "match_here cls prev s = Some k"
  then have "backtrack s (min 12 (length (takeWhile cls s))) = Some k"
    by (simp add: match_here_def split: if_splits)
  then have "6 \<le> k \<and> k \<le> min 12 (length (takeWhile cls s))"
    by (rule backtrack_ge)
  moreover have "length (takeWhile cls s) \<le> length s"
    by (rule length_takeWhile_le)
  ultimately show ?thesis by simp
qed

text \<open>
  \<^verbatim>\<open>re.findall\<close>: the matches from left to right, the scan resuming where a match ends
  and one character further where none starts.
\<close>

function re_findall :: "(char \<Rightarrow> bool) \<Rightarrow> char option \<Rightarrow> string \<Rightarrow> string list" where
  "re_findall cls prev [] = []"
| "re_findall cls prev (c # cs) =
     (case match_here cls prev (c # cs) of
        Some n \<Rightarrow> take n (c # cs) # re_findall cls (Some ((c # cs) ! (n - 1))) (drop n (c # cs))
      | None \<Rightarrow> re_findall cls (Some c) cs)"
  by pat_completeness auto
termination
proof (relation "measure (\<lambda>(cls, prev, s). length s)")
  show "wf (measure (\<lambda>(cls, prev, s). length s))" by simp
next
  fix cls :: "char \<Rightarrow> bool" and prev :: "char option" and c :: char and cs :: string and n :: nat
  assume "match_here cls prev (c # cs) = Some n"
  then have "6 \<le> n" using match_here_ge by blast
  then show "((cls, Some ((c # cs) ! (n - 1)), drop n (c # cs)), (cls, prev, c # cs))
      \<in> measure (\<lambda>(cls, prev, s). length s)"
    by simp
next
  fix cls :: "char \<Rightarrow> bool" and prev :: "char option" and c :: char and cs :: string
  show "((cls, Some c, cs), (cls, prev, c # cs)) \<in> measure (\<lambda>(cls, prev, s). length s)"
    by simp
qed

text \<open>\<^verbatim>\<open>re.search\<close>: the first match of the scan, \<open>None\<close> when the scan finds none.\<close>

fun re_search :: "(char \<Rightarrow> bool) \<Rightarrow> char option \<Rightarrow> string \<Rightarrow> string option" where
  "re_search cls prev [] = None"
| "re_search cls prev (c # cs) =
     (case match_here cls prev (c # cs) of
        Some n \<Rightarrow> Some (take n (c # cs))
      | None \<Rightarrow> re_search cls (Some c) cs)"

subsection \<open>Rule-based intent detection\<close>

text \<open>The phrase lists of \<^verbatim>\<open>fallback_intent_detection\<close>, in the order of the source.\<close>

definition greeting_words :: "string list" where
  "greeting_words = [''hello'', ''hi'', ''start'', ''hey'', ''namaste'', ''good morning'',
     ''good afternoon'', ''good evening'']"

definition norms_phrases :: "string list" where
  "norms_phrases = [''norms'', ''amount'', ''money'', ''eligibility'', ''how much'', ''rate'',
     ''compensation'', ''house damage'', ''crop loss'', ''livestock'', ''injury'', ''death'',
     ''relief amount'', ''sanction'', ''criteria'', ''eligible'', ''qualify'', ''entitle'']"

definition procedure_phrases :: "string list" where
  "procedure_phrases = [''apply'', ''application'', ''procedure'', ''process'', ''how to'',
     ''documents'', ''submit'', ''steps'', ''gram panchayat'', ''ward office'', ''requirements'',
     ''form'', ''paperwork'', ''where to apply'', ''when to apply'']"

definition status_phrases :: "string list" where
  "status_phrases = [''status'', ''check'', ''track'', ''application id'', ''app id'',
     ''reference'', ''progress'', ''update'', ''approved'', ''pending'', ''rejected'',
     ''sanctioned'']"

definition help_words :: "string list" where
  "help_words = [''help'', ''support'', ''assist'', ''guidance'', ''information'', ''contact'',
     ''phone'', ''number'']"

definition question_words :: "string list" where
  "question_words = [''what'', ''how'', ''when'', ''where'', ''why'', ''which'']"

definition document_words :: "string list" where
  "document_words = [''document'', ''paper'', ''certificate'', ''proof'']"

definition money_words :: "string list" where
  "money_words = [''money'', ''amount'', ''rupee'', ''compensation'']"

text \<open>
  \<^verbatim>\<open>fallback_intent_detection\<close> (lines 73 to 121). Intents are the string literals the
  source returns.
\<close>

definition fallback_intent_detection :: "string \<Rightarrow> string" where
  "fallback_intent_detection message =
     (let message_lower = lower message in
      if any_in greeting_words message_lower then ''greeting''
      else if any_in norms_phrases message_lower then ''exgratia_norms''
      else if any_in procedure_phrases message_lower then ''application_procedure''
      else if any_in status_phrases message_lower
              \<or> re_search lower_alnum None message_lower \<noteq> None then ''status_check''
      else if any_in help_words message_lower then ''help''
      else if any_in question_words message_lower then
        (if any_in document_words message_lower then ''application_procedure''
         else if any_in money_words message_lower then ''exgratia_norms''
         else ''other'')
      else ''other'')"

text \<open>
  \<^verbatim>\<open>get_intent_from_llm\<close> (lines 39 to 43): the remote call sits in a string literal after
  the \<^verbatim>\<open>return\<close>, so the function is the rule-based detector.
\<close>

definition get_intent_from_llm :: "string \<Rightarrow> string" where
  "get_intent_from_llm message = fallback_intent_detection message"

text \<open>
  \<^verbatim>\<open>re.findall(r'\b[A-Z0-9]{6,12}\b', message.upper())\<close>, the expression both handlers
  bind to \<^verbatim>\<open>app_ids\<close> (lines 178 to 179 and 196 to 197).
\<close>

definition app_ids :: "string \<Rightarrow> string list" where
  "app_ids message = re_findall upper_alnum None (upper message)"

subsection \<open>Tokens, as the specification words them\<close>





text \<open>
  The classifier of the specification's section 4.1: an ordered table of rule groups, the
  first group that matches the lower-cased text giving the intent, and the question-shaped
  secondary pass before the default.
\<close>

definition rule_groups :: "(string \<times> (string \<Rightarrow> bool)) list" where
  "rule_groups =
     [(''greeting'', any_in greeting_words),
      (''exgratia_norms'', any_in norms_phrases),
      (''application_procedure'', any_in procedure_phrases),
      (''status_check'', \<lambda>t. any_in status_phrases t \<or> re_search lower_alnum None t \<noteq> None),
      (''help'', any_in help_words)]"

fun first_match :: "(string \<times> (string \<Rightarrow> bool)) list \<Rightarrow> string \<Rightarrow> string option" where
  "first_match [] t = None"
| "first_match ((intent, matches) # groups) t =
     (if matches t then Some intent else first_match groups t)"

definition secondary_pass :: "string \<Rightarrow> string option" where
  "secondary_pass t =
     (if any_in question_words t then
        (if any_in document_words t then Some ''application_procedure''
         else if any_in money_words t then Some ''exgratia_norms''
         else None)
      else None)"

definition classify_by_priority :: "string \<Rightarrow> string" where
  "classify_by_priority message =
     (case first_match rule_groups (lower message) of
        Some intent \<Rightarrow> intent
      | None \<Rightarrow> (case secondary_pass (lower message) of
                   Some intent \<Rightarrow> intent
                 | None \<Rightarrow> ''other''))"

subsection \<open>Content files\<close>

datatype error = OSError | AttributeError | ValueError

text \<open>
  What the file system holds under a path: nothing, a file that cannot be opened or
  decoded, or a file with its text.
\<close>

datatype file_state = Absent | Unreadable | Readable string

text \<open>\<^verbatim>\<open>os.path.exists\<close>, and \<^verbatim>\<open>open(...).read()\<close> with its exception as a value.\<close>

definition path_exists :: "(string \<Rightarrow> file_state) \<Rightarrow> string \<Rightarrow> bool" where
  "path_exists fs file_path = (fs file_path \<noteq> Absent)"

definition read_file :: "(string \<Rightarrow> file_state) \<Rightarrow> string \<Rightarrow> error + string" where
  "read_file fs file_path =
     (case fs file_path of Readable content \<Rightarrow> Inr content | _ \<Rightarrow> Inl OSError)"

text \<open>\<^verbatim>\<open>_load_file_content\<close> (lines 23 to 31).\<close>

definition load_file_content :: "(string \<Rightarrow> file_state) \<Rightarrow> string \<Rightarrow> string" where
  "load_file_content fs file_path =
     (if path_exists fs file_path then
        (case read_file fs file_path of
           Inr content \<Rightarrow> content
         | Inl e \<Rightarrow> ''Error loading information. Please contact support.'')
      else ''Information not available. Please contact support.'')"

text \<open>The two texts \<^verbatim>\<open>__init__\<close> loads (lines 19 to 20), with the paths of \<^verbatim>\<open>config.py\<close>.\<close>

record bot =
  exgratia_norms :: string
  application_procedure :: string

definition init :: "(string \<Rightarrow> file_state) \<Rightarrow> bot" where
  "init fs =
     \<lparr>exgratia_norms = load_file_content fs ''data/info_opt1.txt'',
      application_procedure = load_file_content fs ''data/info_opt2.txt''\<rparr>"

subsection \<open>The status store\<close>

text \<open>
  \<^verbatim>\<open>pd.read_csv\<close> is outside the repository: its result is a parameter of the handlers.
  It raises (no file, an empty file, a row with more fields than the header) or builds a
  frame. A cell of a frame is a string, a number or the missing value; a column that holds
  a string anywhere is a text column, whose cells are strings or missing. The frame has
  the eight columns the handler reads.
\<close>

datatype cell = Txt string | Num int | NaN

record application_record =
  application_id :: cell
  applicant_name :: cell
  phone :: cell
  type :: cell
  status :: cell
  amount :: cell
  date_applied :: cell
  remarks :: cell

datatype read_csv = ReadRaises | DataFrame "application_record list"

definition is_txt :: "cell \<Rightarrow> bool" where
  "is_txt x = (case x of Txt _ \<Rightarrow> True | _ \<Rightarrow> False)"

text \<open>
  \<^verbatim>\<open>Series.str\<close> raises \<^verbatim>\<open>AttributeError\<close> on a column that is not a text column: a
  non-empty column without a string.
\<close>

definition str_accessor_raises :: "cell list \<Rightarrow> bool" where
  "str_accessor_raises column = (column \<noteq> [] \<and> \<not> list_ex is_txt column)"

text \<open>\<^verbatim>\<open>.str.upper()\<close> on a cell: a string is upper-cased, anything else gives the missing value.\<close>

definition str_upper :: "cell \<Rightarrow> string option" where
  "str_upper x = (case x of Txt s \<Rightarrow> Some (upper s) | _ \<Rightarrow> None)"

text \<open>\<^verbatim>\<open>df[df['application_id'].str.upper() == app_id.upper()]\<close> (line 298).\<close>

definition matching_rows :: "application_record list \<Rightarrow> string \<Rightarrow> application_record list" where
  "matching_rows rows app_id =
     filter (\<lambda>row. str_upper (application_id row) = Some (upper app_id)) rows"

text \<open>
  The format specification \<^verbatim>\<open>:,\<close> of line 312 raises \<^verbatim>\<open>ValueError\<close> on a string and
  formats a number or the missing value.
\<close>

definition comma_format_raises :: "cell \<Rightarrow> bool" where
  "comma_format_raises x = is_txt x"

subsection \<open>Views and transport\<close>

text \<open>
  A view is the payload a handler hands to the transport; its literal text and buttons
  are fixed by the handler that builds it, so a view is identified by its kind and the
  data it carries.
\<close>

datatype view =
    WelcomeView
  | HelpView
  | OtherIntentView
  | NormsView string
  | ProcedureView string
  | AskApplicationIdView
  | ApplicationFoundView application_record
  | ApplicationNotFoundView string
  | ErrorView

text \<open>
  What a handler does, in order: it answers a callback query, replies to the message,
  edits the message of the callback query, or ends with an exception nobody caught.
\<close>

datatype event = Answered | Replied view | Edited view | Raised error

text \<open>
  An update carries a text message or a callback query, never both:
  \<^verbatim>\<open>update.message\<close> is \<^verbatim>\<open>None\<close> on a callback query and \<^verbatim>\<open>update.callback_query\<close>
  is \<^verbatim>\<open>None\<close> on a message.
\<close>

datatype update = TextMessage string | CallbackQuery string

text \<open>\<^verbatim>\<open>context.user_data\<close>, the dictionary of one conversation.\<close>

type_synonym user_data = "string \<rightharpoonup> bool"

definition waiting_for_app_id :: "user_data \<Rightarrow> bool" where
  "waiting_for_app_id user_data = (user_data ''waiting_for_app_id'' = Some True)"

text \<open>The two dialog states of the specification's section 4.4.\<close>

datatype dialog_state = Idle | AwaitingApplicationId

definition dialog_state :: "user_data \<Rightarrow> dialog_state" where
  "dialog_state user_data =
     (if waiting_for_app_id user_data then AwaitingApplicationId else Idle)"

text \<open>\<^verbatim>\<open>await update.message.reply_text(...)\<close>.\<close>

definition reply_text :: "update \<Rightarrow> view \<Rightarrow> event" where
  "reply_text update v =
     (case update of TextMessage _ \<Rightarrow> Replied v | CallbackQuery _ \<Rightarrow> Raised AttributeError)"

text \<open>
  \<^verbatim>\<open>if update.callback_query: edit_message_text(...) else: update.message.reply_text(...)\<close>.
\<close>

definition edit_or_reply :: "update \<Rightarrow> view \<Rightarrow> event" where
  "edit_or_reply update v =
     (case update of CallbackQuery _ \<Rightarrow> Edited v | TextMessage _ \<Rightarrow> Replied v)"

subsection \<open>Handlers\<close>

text \<open>
  A handler takes the update and the conversation's \<^verbatim>\<open>user_data\<close> and returns what it did
  and the \<^verbatim>\<open>user_data\<close> it leaves. The transport delivers whatever it is given.
\<close>

text \<open>\<^verbatim>\<open>start_command\<close> (lines 123 to 132).\<close>

definition start_command :: "update \<Rightarrow> user_data \<Rightarrow> event list \<times> user_data" where
  "start_command update user_data = ([reply_text update WelcomeView], user_data)"

text \<open>\<^verbatim>\<open>help_command\<close> (lines 134 to 155).\<close>

definition help_command :: "update \<Rightarrow> user_data \<Rightarrow> event list \<times> user_data" where
  "help_command update user_data = ([reply_text update HelpView], user_data)"

text \<open>\<^verbatim>\<open>handle_other_intent\<close> (lines 207 to 228).\<close>

definition handle_other_intent :: "update \<Rightarrow> user_data \<Rightarrow> event list \<times> user_data" where
  "handle_other_intent update user_data = ([reply_text update OtherIntentView], user_data)"

text \<open>\<^verbatim>\<open>show_exgratia_norms\<close> (lines 230 to 248).\<close>

definition show_exgratia_norms :: "bot \<Rightarrow> update \<Rightarrow> user_data \<Rightarrow> event list \<times> user_data" where
  "show_exgratia_norms self update user_data =
     ([edit_or_reply update (NormsView (exgratia_norms self))], user_data)"

text \<open>\<^verbatim>\<open>show_application_procedure\<close> (lines 250 to 267).\<close>

definition show_application_procedure ::
  "bot \<Rightarrow> update \<Rightarrow> user_data \<Rightarrow> event list \<times> user_data" where
  "show_application_procedure self update user_data =
     ([edit_or_reply update (ProcedureView (application_procedure self))], user_data)"

text \<open>\<^verbatim>\<open>ask_for_application_id\<close> (lines 269 to 293): the prompt, then the flag.\<close>

definition ask_for_application_id :: "update \<Rightarrow> user_data \<Rightarrow> event list \<times> user_data" where
  "ask_for_application_id update user_data =
     ([edit_or_reply update AskApplicationIdView],
      user_data(''waiting_for_app_id'' \<mapsto> True))"

text \<open>
  The body of the \<^verbatim>\<open>try\<close> of \<^verbatim>\<open>check_application_status\<close> up to the reply (lines 297 to
  333): the view bound to \<^verbatim>\<open>response\<close>, or the exception raised on the way.
\<close>

definition status_response :: "read_csv \<Rightarrow> string \<Rightarrow> error + view" where
  "status_response csv app_id =
     (case csv of
        ReadRaises \<Rightarrow> Inl OSError
      | DataFrame rows \<Rightarrow>
          if str_accessor_raises (map application_id rows) then Inl AttributeError
          else (case matching_rows rows app_id of
                  [] \<Rightarrow> Inr (ApplicationNotFoundView app_id)
                | row # _ \<Rightarrow>
                    if comma_format_raises (amount row) then Inl ValueError
                    else Inr (ApplicationFoundView row)))"

text \<open>
  \<^verbatim>\<open>check_application_status\<close> (lines 295 to 350). An exception of the \<^verbatim>\<open>try\<close> block,
  the reply included, is caught and answered with the error text; an exception of that
  second reply leaves the handler before the flag is popped.
\<close>

definition check_application_status ::
  "read_csv \<Rightarrow> update \<Rightarrow> user_data \<Rightarrow> string \<Rightarrow> event list \<times> user_data" where
  "check_application_status csv update user_data app_id =
     (case (case status_response csv app_id of
              Inr response \<Rightarrow> reply_text update response
            | Inl e \<Rightarrow> Raised e) of
        Raised e \<Rightarrow>
          (case reply_text update ErrorView of
             Raised e' \<Rightarrow> ([Raised e'], user_data)
           | sent \<Rightarrow> ([sent], user_data(''waiting_for_app_id'' := None)))
      | sent \<Rightarrow> ([sent], user_data(''waiting_for_app_id'' := None)))"

text \<open>\<^verbatim>\<open>handle_intent\<close> (lines 188 to 205).\<close>

definition handle_intent ::
  "bot \<Rightarrow> read_csv \<Rightarrow> update \<Rightarrow> user_data \<Rightarrow> string \<Rightarrow> string \<Rightarrow> event list \<times> user_data" where
  "handle_intent self csv update user_data intent message =
     (if intent = ''greeting'' then start_command update user_data
      else if intent = ''exgratia_norms'' then show_exgratia_norms self update user_data
      else if intent = ''application_procedure'' \<or> intent = ''apply_start''
        then show_application_procedure self update user_data
      else if intent = ''status_check'' then
        (case app_ids message of
           app_id # _ \<Rightarrow> check_application_status csv update user_data app_id
         | [] \<Rightarrow> ask_for_application_id update user_data)
      else if intent = ''help'' then help_command update user_data
      else handle_other_intent update user_data)"

text \<open>
  \<^verbatim>\<open>message_handler\<close> (lines 172 to 186). It is registered for text messages; on a
  callback query \<^verbatim>\<open>update.message.text\<close> raises.
\<close>

definition message_handler ::
  "bot \<Rightarrow> read_csv \<Rightarrow> update \<Rightarrow> user_data \<Rightarrow> event list \<times> user_data" where
  "message_handler self csv update user_data =
     (case update of
        CallbackQuery _ \<Rightarrow> ([Raised AttributeError], user_data)
      | TextMessage message \<Rightarrow>
          (case (if waiting_for_app_id user_data then app_ids message else []) of
             app_id # _ \<Rightarrow> check_application_status csv update user_data app_id
           | [] \<Rightarrow>
               handle_intent self csv update user_data (get_intent_from_llm message) message))"


text \<open>A handler's events end in an exception nobody caught.\<close>

definition raises :: "event list \<Rightarrow> bool" where
  "raises events = list_ex (\<lambda>ev. case ev of Raised _ \<Rightarrow> True | _ \<Rightarrow> False) events"

subsection \<open>Example data\<close>

text \<open>
  The record of the specification's lookup example (section 8); the fields the example
  leaves open are missing values. The second record has the same ID and an amount that
  is not a number.
\<close>

definition example_record :: application_record where
  "example_record =
     \<lparr>application_id = Txt ''23LDM786'', applicant_name = NaN, phone = NaN, type = NaN,
      status = Txt ''Approved'', amount = Num 50000, date_applied = NaN, remarks = NaN\<rparr>"

definition text_amount_record :: application_record where
  "text_amount_record =
     \<lparr>application_id = Txt ''23LDM786'', applicant_name = NaN, phone = NaN, type = NaN,
      status = Txt ''Approved'', amount = Txt ''fifty thousand'', date_applied = NaN,
      remarks = NaN\<rparr>"

definition example_bot :: bot where
  "example_bot = \<lparr>exgratia_norms = ''norms'', application_procedure = ''procedure''\<rparr>"

text \<open>A file system with no file, and a conversation with nothing stored.\<close>

definition no_files :: "string \<Rightarrow> file_state" where
  "no_files file_path = Absent"

definition fresh_user_data :: user_data where
  "fresh_user_data = Map.empty"

section \<open>Properties\<close>

subsection \<open>The intent classifier\<close>

text \<open>
  C10. For every message the rule-based classifier returns one of \<open>greeting\<close>,
  \<open>exgratia_norms\<close>, \<open>application_procedure\<close>, \<open>status_check\<close>, \<open>help\<close>, \<open>other\<close>, and
  never \<open>apply_start\<close>; the intent \<^verbatim>\<open>message_handler\<close> passes to \<^verbatim>\<open>handle_intent\<close> is
  the classifier's, so the \<open>apply_start\<close> branch of the dispatcher is not reached from
  free text.
\<close>

theorem classifier_range:
  "fallback_intent_detection message \<in>
     {''greeting'', ''exgratia_norms'', ''application_procedure'', ''status_check'',
      ''help'', ''other''}
   \<and> fallback_intent_detection message \<noteq> ''apply_start''
   \<and> get_intent_from_llm message \<noteq> ''apply_start''"
  by (simp add: get_intent_from_llm_def fallback_intent_detection_def Let_def)

lemma eligibility_example:
  "fallback_intent_detection ''What is the eligibility and how do I apply?'' = ''exgratia_norms''"
  by code_simp

lemma eligibility_example_phrases:
  "any_in norms_phrases (lower ''What is the eligibility and how do I apply?'')
   \<and> any_in procedure_phrases (lower ''What is the eligibility and how do I apply?'')
   \<and> \<not> any_in greeting_words (lower ''What is the eligibility and how do I apply?'')"
  by code_simp

text \<open>
  C1. The classifier is the first match over the rule groups in the order greeting,
  exgratia_norms, application_procedure, status_check, help, followed by the
  question-shaped secondary pass. A message with a norms phrase and a procedure phrase is
  never classified by the procedure group: it is \<open>exgratia_norms\<close>, or \<open>greeting\<close> when
  a greeting word occurs in it. "What is the eligibility and how do I apply?" is
  \<open>exgratia_norms\<close>.
\<close>

theorem priority_order:
  "fallback_intent_detection message = classify_by_priority message
   \<and> (any_in norms_phrases (lower message) \<and> any_in procedure_phrases (lower message) \<longrightarrow>
        fallback_intent_detection message =
          (if any_in greeting_words (lower message) then ''greeting'' else ''exgratia_norms''))
   \<and> fallback_intent_detection ''What is the eligibility and how do I apply?'' = ''exgratia_norms''"
proof (intro conjI impI)
  show "fallback_intent_detection message = classify_by_priority message"
    by (simp add: fallback_intent_detection_def classify_by_priority_def rule_groups_def
        secondary_pass_def Let_def)
next
  assume "any_in norms_phrases (lower message) \<and> any_in procedure_phrases (lower message)"
  then show "fallback_intent_detection message =
      (if any_in greeting_words (lower message) then ''greeting'' else ''exgratia_norms'')"
    by (simp add: fallback_intent_detection_def Let_def)
next
  show "fallback_intent_detection ''What is the eligibility and how do I apply?'' = ''exgratia_norms''"
    by (rule eligibility_example)
qed

theorem priority_order_witness:
  "any_in norms_phrases (lower ''What is the eligibility and how do I apply?'')
   \<and> any_in procedure_phrases (lower ''What is the eligibility and how do I apply?'')
   \<and> \<not> any_in greeting_words (lower ''What is the eligibility and how do I apply?'')
   \<and> classify_by_priority ''What is the eligibility and how do I apply?'' = ''exgratia_norms''"
proof -
  let ?m = "''What is the eligibility and how do I apply?''"
  note p = priority_order [of ?m]
  note ph = eligibility_example_phrases
  from p have a: "fallback_intent_detection ?m = classify_by_priority ?m"
    by (rule conjunct1)
  from p have "any_in norms_phrases (lower ?m) \<and> any_in procedure_phrases (lower ?m) \<longrightarrow>
      fallback_intent_detection ?m =
        (if any_in greeting_words (lower ?m) then ''greeting'' else ''exgratia_norms'')"
    by (rule conjunct2 [THEN conjunct1])
  with ph have "fallback_intent_detection ?m = ''exgratia_norms''" by simp
  with a have "classify_by_priority ?m = ''exgratia_norms''" by simp
  with ph show ?thesis by simp
qed

subsection \<open>Characters\<close>











subsection \<open>The matcher finds the whole words of the right shape\<close>













subsection \<open>Runs of a text built from parts\<close>






subsection \<open>The application ID extractor\<close>












subsection \<open>The status-check rule of the classifier\<close>





subsection \<open>Content files\<close>

text \<open>
  C9, as the specification words it, fails on a file that exists and cannot be read: the
  loader returns its other fixed text, "Error loading information. Please contact
  support.", not the "Information not available" text.
\<close>

theorem load_file_content_counterexample:
  "load_file_content (no_files(''data/info_opt1.txt'' := Unreadable)) ''data/info_opt1.txt''
     = ''Error loading information. Please contact support.''
   \<and> load_file_content (no_files(''data/info_opt1.txt'' := Unreadable)) ''data/info_opt1.txt''
     \<noteq> ''Information not available. Please contact support.''"
  by (simp add: load_file_content_def path_exists_def read_file_def)

text \<open>
  C9, amended. The loader returns "Information not available. Please contact support."
  when the file is absent, "Error loading information. Please contact support." when the
  file exists and cannot be read, and the file's text otherwise; it returns a string in
  every case.
\<close>

theorem load_file_content_fallbacks:
  "(fs file_path = Absent \<longrightarrow>
      load_file_content fs file_path = ''Information not available. Please contact support.'')
   \<and> (fs file_path = Unreadable \<longrightarrow>
      load_file_content fs file_path = ''Error loading information. Please contact support.'')
   \<and> (fs file_path = Readable content \<longrightarrow> load_file_content fs file_path = content)"
  by (simp add: load_file_content_def path_exists_def read_file_def)

theorem load_file_content_fallbacks_witness:
  "load_file_content no_files ''data/info_opt2.txt''
     = ''Information not available. Please contact support.''
   \<and> load_file_content (no_files(''data/info_opt2.txt'' := Unreadable)) ''data/info_opt2.txt''
     = ''Error loading information. Please contact support.''
   \<and> load_file_content (no_files(''data/info_opt2.txt'' := Readable ''Steps'')) ''data/info_opt2.txt''
     = ''Steps''"
proof -
  have a: "no_files ''data/info_opt2.txt'' = Absent" by (simp add: no_files_def)
  have u: "(no_files(''data/info_opt2.txt'' := Unreadable)) ''data/info_opt2.txt'' = Unreadable"
    by simp
  have r: "(no_files(''data/info_opt2.txt'' := Readable ''Steps'')) ''data/info_opt2.txt''
      = Readable ''Steps''"
    by simp
  from a load_file_content_fallbacks [of no_files "''data/info_opt2.txt''"]
  have "load_file_content no_files ''data/info_opt2.txt''
      = ''Information not available. Please contact support.''" by blast
  moreover from u load_file_content_fallbacks
      [of "no_files(''data/info_opt2.txt'' := Unreadable)" "''data/info_opt2.txt''"]
  have "load_file_content (no_files(''data/info_opt2.txt'' := Unreadable)) ''data/info_opt2.txt''
      = ''Error loading information. Please contact support.''" by blast
  moreover from r load_file_content_fallbacks
      [of "no_files(''data/info_opt2.txt'' := Readable ''Steps'')" "''data/info_opt2.txt''" "''Steps''"]
  have "load_file_content (no_files(''data/info_opt2.txt'' := Readable ''Steps'')) ''data/info_opt2.txt''
      = ''Steps''" by blast
  ultimately show ?thesis by blast
qed

subsection \<open>Status lookup\<close>



lemma reply_text_message: "reply_text (TextMessage message) v = Replied v"
  by (simp add: reply_text_def)

lemma check_application_status_message:
  "check_application_status csv (TextMessage message) user_data app_id =
     ([Replied (case status_response csv app_id of Inr response \<Rightarrow> response | Inl e \<Rightarrow> ErrorView)],
      user_data(''waiting_for_app_id'' := None))"
  by (simp add: check_application_status_def reply_text_message split: sum.splits)





lemma text_amount_lookup_facts:
  "comma_format_raises (amount text_amount_record)
   \<and> \<not> str_accessor_raises (map application_id [text_amount_record])
   \<and> matching_rows [text_amount_record] ''NOPE123'' = []
   \<and> matching_rows [text_amount_record] ''23ldm786'' = [text_amount_record]"
  by code_simp

text \<open>
  C6, as the specification words it, fails on a store whose amount is not a number when
  the query matches no row: the amount is never looked at, and the outcome is the
  not-found view, not the error view.
\<close>

theorem lookup_failure_counterexample:
  "comma_format_raises (amount text_amount_record)
   \<and> fst (check_application_status (DataFrame [text_amount_record]) (TextMessage ''NOPE123'')
        fresh_user_data ''NOPE123'')
     = [Replied (ApplicationNotFoundView ''NOPE123'')]"
  using text_amount_lookup_facts
  by (simp add: check_application_status_message status_response_def)

text \<open>
  C6, amended. Every exception raised while the status check reads the store or builds the
  found view is answered with the generic error view, and the handler ends normally with
  the flag cleared: a read that raises, an \<open>application_id\<close> column that is not a text
  column, and an amount that is not a number in the first matching row. No text message
  makes the message handler end with an uncaught exception. An amount that is not a number
  is noticed only when a row matches: a query that matches no row gets the not-found view
  whatever the amounts are.
\<close>

theorem lookup_failure_view:
  "(status_response csv app_id = Inl e \<longrightarrow>
      check_application_status csv (TextMessage message) user_data app_id =
        ([Replied ErrorView], user_data(''waiting_for_app_id'' := None)))
   \<and> status_response ReadRaises app_id = Inl OSError
   \<and> (str_accessor_raises (map application_id rows) \<longrightarrow>
        status_response (DataFrame rows) app_id = Inl AttributeError)
   \<and> (\<not> str_accessor_raises (map application_id rows)
        \<and> matching_rows rows app_id = row # others \<and> comma_format_raises (amount row) \<longrightarrow>
        status_response (DataFrame rows) app_id = Inl ValueError)
   \<and> (\<not> str_accessor_raises (map application_id rows) \<and> matching_rows rows app_id = [] \<longrightarrow>
        status_response (DataFrame rows) app_id = Inr (ApplicationNotFoundView app_id))
   \<and> \<not> raises (fst (message_handler self csv (TextMessage message) user_data))"
proof (intro conjI impI)
  assume "status_response csv app_id = Inl e"
  then show "check_application_status csv (TextMessage message) user_data app_id =
      ([Replied ErrorView], user_data(''waiting_for_app_id'' := None))"
    by (simp add: check_application_status_message)
next
  show "status_response ReadRaises app_id = Inl OSError"
    by (simp add: status_response_def)
next
  assume "str_accessor_raises (map application_id rows)"
  then show "status_response (DataFrame rows) app_id = Inl AttributeError"
    by (simp add: status_response_def)
next
  assume "\<not> str_accessor_raises (map application_id rows)
      \<and> matching_rows rows app_id = row # others \<and> comma_format_raises (amount row)"
  then show "status_response (DataFrame rows) app_id = Inl ValueError"
    by (simp add: status_response_def)
next
  assume "\<not> str_accessor_raises (map application_id rows) \<and> matching_rows rows app_id = []"
  then show "status_response (DataFrame rows) app_id = Inr (ApplicationNotFoundView app_id)"
    by (simp add: status_response_def)
next
  show "\<not> raises (fst (message_handler self csv (TextMessage message) user_data))"
    by (simp add: message_handler_def handle_intent_def check_application_status_message
        start_command_def help_command_def handle_other_intent_def show_exgratia_norms_def
        show_application_procedure_def ask_for_application_id_def reply_text_def
        edit_or_reply_def raises_def split: list.splits)
qed

theorem lookup_failure_view_witness:
  "check_application_status ReadRaises (TextMessage ''23ldm786'') fresh_user_data ''23ldm786''
     = ([Replied ErrorView], fresh_user_data(''waiting_for_app_id'' := None))
   \<and> check_application_status (DataFrame [text_amount_record]) (TextMessage ''23ldm786'')
        fresh_user_data ''23ldm786''
     = ([Replied ErrorView], fresh_user_data(''waiting_for_app_id'' := None))
   \<and> status_response (DataFrame [text_amount_record]) ''NOPE123''
     = Inr (ApplicationNotFoundView ''NOPE123'')"
proof -
  note f = text_amount_lookup_facts
  note t1 = lookup_failure_view [of ReadRaises "''23ldm786''" OSError "''23ldm786''"
      fresh_user_data "[text_amount_record]" text_amount_record "[]" example_bot]
  note t2 = lookup_failure_view [of "DataFrame [text_amount_record]" "''23ldm786''" ValueError
      "''23ldm786''" fresh_user_data "[text_amount_record]" text_amount_record "[]" example_bot]
  note t3 = lookup_failure_view [of "DataFrame [text_amount_record]" "''NOPE123''" ValueError
      "''NOPE123''" fresh_user_data "[text_amount_record]" text_amount_record "[]" example_bot]
  from t1 have "check_application_status ReadRaises (TextMessage ''23ldm786'') fresh_user_data
      ''23ldm786'' = ([Replied ErrorView], fresh_user_data(''waiting_for_app_id'' := None))"
    by blast
  moreover from t2 f have "status_response (DataFrame [text_amount_record]) ''23ldm786''
      = Inl ValueError" by blast
  with t2 have "check_application_status (DataFrame [text_amount_record])
      (TextMessage ''23ldm786'') fresh_user_data ''23ldm786''
      = ([Replied ErrorView], fresh_user_data(''waiting_for_app_id'' := None))" by blast
  moreover from t3 f have "status_response (DataFrame [text_amount_record]) ''NOPE123''
      = Inr (ApplicationNotFoundView ''NOPE123'')" by blast
  ultimately show ?thesis by blast
qed

subsection \<open>The dialog\<close>

lemma dialog_state_Idle: "(dialog_state user_data = Idle) = (\<not> waiting_for_app_id user_data)"
  by (simp add: dialog_state_def)

lemma dialog_state_Awaiting:
  "(dialog_state user_data = AwaitingApplicationId) = waiting_for_app_id user_data"
  by (simp add: dialog_state_def)

lemma track_example:
  "get_intent_from_llm ''track'' = ''status_check'' \<and> app_ids ''track'' = []
   \<and> app_ids ''23LDM786'' = [''23LDM786'']"
  by code_simp

text \<open>
  C7. From Idle, a text classified \<open>status_check\<close> with no extractable application ID is
  answered with the prompt and moves the conversation to AwaitingApplicationId. In
  AwaitingApplicationId, a text from which the extractor yields at least one ID is handled
  by the status check on the first ID, and the conversation is Idle afterwards.
\<close>

theorem awaiting_id_round_trip:
  "(dialog_state user_data = Idle \<and> get_intent_from_llm message = ''status_check''
      \<and> app_ids message = [] \<longrightarrow>
      message_handler self csv (TextMessage message) user_data =
        ([Replied AskApplicationIdView], user_data(''waiting_for_app_id'' \<mapsto> True))
      \<and> dialog_state (snd (message_handler self csv (TextMessage message) user_data))
          = AwaitingApplicationId)
   \<and> (dialog_state user_data = AwaitingApplicationId \<and> app_ids message = app_id # others \<longrightarrow>
      message_handler self csv (TextMessage message) user_data =
        check_application_status csv (TextMessage message) user_data app_id
      \<and> dialog_state (snd (message_handler self csv (TextMessage message) user_data)) = Idle)"
proof (intro conjI impI)
  assume a: "dialog_state user_data = Idle \<and> get_intent_from_llm message = ''status_check''
      \<and> app_ids message = []"
  then have m: "message_handler self csv (TextMessage message) user_data =
      ([Replied AskApplicationIdView], user_data(''waiting_for_app_id'' \<mapsto> True))"
    by (simp add: message_handler_def handle_intent_def ask_for_application_id_def
        edit_or_reply_def dialog_state_Idle)
  then show "message_handler self csv (TextMessage message) user_data =
      ([Replied AskApplicationIdView], user_data(''waiting_for_app_id'' \<mapsto> True))" .
  from m show "dialog_state (snd (message_handler self csv (TextMessage message) user_data))
      = AwaitingApplicationId"
    by (simp add: dialog_state_def waiting_for_app_id_def)
next
  assume a: "dialog_state user_data = AwaitingApplicationId \<and> app_ids message = app_id # others"
  then have m: "message_handler self csv (TextMessage message) user_data =
      check_application_status csv (TextMessage message) user_data app_id"
    by (simp add: message_handler_def dialog_state_Awaiting)
  then show "message_handler self csv (TextMessage message) user_data =
      check_application_status csv (TextMessage message) user_data app_id" .
  from m show "dialog_state (snd (message_handler self csv (TextMessage message) user_data)) = Idle"
    by (simp add: check_application_status_message dialog_state_def waiting_for_app_id_def)
qed

theorem awaiting_id_round_trip_witness:
  "dialog_state fresh_user_data = Idle
   \<and> message_handler example_bot (DataFrame [example_record]) (TextMessage ''track'')
        fresh_user_data
      = ([Replied AskApplicationIdView], fresh_user_data(''waiting_for_app_id'' \<mapsto> True))
   \<and> dialog_state (fresh_user_data(''waiting_for_app_id'' \<mapsto> True)) = AwaitingApplicationId
   \<and> message_handler example_bot (DataFrame [example_record]) (TextMessage ''23LDM786'')
        (fresh_user_data(''waiting_for_app_id'' \<mapsto> True))
      = check_application_status (DataFrame [example_record]) (TextMessage ''23LDM786'')
          (fresh_user_data(''waiting_for_app_id'' \<mapsto> True)) ''23LDM786''
   \<and> dialog_state (snd (message_handler example_bot (DataFrame [example_record])
        (TextMessage ''23LDM786'') (fresh_user_data(''waiting_for_app_id'' \<mapsto> True)))) = Idle"
proof -
  note e = track_example
  have i: "dialog_state fresh_user_data = Idle"
    by (simp add: dialog_state_def waiting_for_app_id_def fresh_user_data_def)
  have w: "dialog_state (fresh_user_data(''waiting_for_app_id'' \<mapsto> True)) = AwaitingApplicationId"
    by (simp add: dialog_state_def waiting_for_app_id_def)
  note t1 = awaiting_id_round_trip [of fresh_user_data "''track''" example_bot
      "DataFrame [example_record]" "''23LDM786''" "[]"]
  note t2 = awaiting_id_round_trip [of "fresh_user_data(''waiting_for_app_id'' \<mapsto> True)"
      "''23LDM786''" example_bot "DataFrame [example_record]" "''23LDM786''" "[]"]
  from t1 i e have "message_handler example_bot (DataFrame [example_record])
      (TextMessage ''track'') fresh_user_data
      = ([Replied AskApplicationIdView], fresh_user_data(''waiting_for_app_id'' \<mapsto> True))"
    by blast
  moreover from t2 w e have "message_handler example_bot (DataFrame [example_record])
        (TextMessage ''23LDM786'') (fresh_user_data(''waiting_for_app_id'' \<mapsto> True))
      = check_application_status (DataFrame [example_record]) (TextMessage ''23LDM786'')
          (fresh_user_data(''waiting_for_app_id'' \<mapsto> True)) ''23LDM786''
      \<and> dialog_state (snd (message_handler example_bot (DataFrame [example_record])
        (TextMessage ''23LDM786'') (fresh_user_data(''waiting_for_app_id'' \<mapsto> True)))) = Idle"
    by blast
  ultimately show ?thesis using i w by blast
qed



end
